theory Spec2Isabelle
  imports Complex_Main
begin

section \<open>Soil classification, peak ground acceleration and liquefaction check\<close>

text \<open>
  A shallow embedding of the three calculation steps of \<^verbatim>\<open>soil4.py\<close>.
  The script is straight-line code run from top to bottom; each step is embedded as a
  function of the widget values it reads and of the session values it receives from
  the step before.

  Conventions of the embedding:
  \<^item> Python \<^verbatim>\<open>float\<close> values are the reals they denote, and arithmetic on them is
    idealised as arithmetic on \<^typ>\<open>real\<close>: rounding, overflow and underflow are not
    modelled. The one exception is the classification, whose outcome is a label decided
    by comparing computed values with thresholds: \<open>classify_soil_rounded\<close> takes the
    rounding of each operation as a parameter, and \<open>classify_soil\<close> is its instance
    with exact arithmetic. The SPT blow count is a Python \<^verbatim>\<open>int\<close> and is an
    \<^typ>\<open>int\<close> here.
  \<^item> Everything that stops a step is a value of type \<open>failure\<close>: a message the
    script shows with \<^verbatim>\<open>st.error\<close>, or a Python exception raised by an operator
    (\<^verbatim>\<open>ZeroDivisionError\<close> of \<^verbatim>\<open>/\<close>, \<^verbatim>\<open>KeyError\<close> of a dictionary lookup).
    Every division of the source is the fallible \<open>truediv\<close>, so that the absence of
    a division by zero is proved, not assumed.
  \<^item> Message texts are the source's, without the leading pictograph.
\<close>

subsection \<open>Failures and the Python operators used by the script\<close>

datatype failure =
    St_error string
  | ZeroDivisionError
  | KeyError string
  | ComplexResult

fun and_then :: "failure + 'a \<Rightarrow> ('a \<Rightarrow> failure + 'b) \<Rightarrow> failure + 'b" where
  "and_then (Inl e) f = Inl e"
| "and_then (Inr x) f = f x"

text \<open>Python's \<^verbatim>\<open>a / b\<close> on numbers: raises \<^verbatim>\<open>ZeroDivisionError\<close> when \<open>b\<close> is zero.\<close>

definition truediv :: "real \<Rightarrow> real \<Rightarrow> failure + real" where
  "truediv a b = (if b = 0 then Inl ZeroDivisionError else Inr (a / b))"

text \<open>
  Python's \<^verbatim>\<open>x ** 0.5\<close>: the square root for \<open>x \<ge> 0\<close>. For a negative \<open>x\<close> Python
  returns a complex number, which leaves the type of the model; that branch is the
  failure \<open>ComplexResult\<close>.
\<close>

definition pow_half :: "real \<Rightarrow> failure + real" where
  "pow_half x = (if x < 0 then Inl ComplexResult else Inr (sqrt x))"

text \<open>Python's \<^verbatim>\<open>sub in s\<close> on strings: \<open>sub\<close> occurs in \<open>s\<close> as a contiguous block.\<close>

fun startswith :: "string \<Rightarrow> string \<Rightarrow> bool" where
  "startswith s [] = True"
| "startswith [] (p # ps) = False"
| "startswith (c # cs) (p # ps) = (c = p \<and> startswith cs ps)"

fun str_in :: "string \<Rightarrow> string \<Rightarrow> bool" where
  "str_in sub [] = (sub = [])"
| "str_in sub (c # cs) = (startswith (c # cs) sub \<or> str_in sub cs)"

text \<open>Python's \<^verbatim>\<open>d[k]\<close> on a dictionary: raises \<^verbatim>\<open>KeyError\<close> for a missing key.\<close>

definition getitem :: "(string \<rightharpoonup> real) \<Rightarrow> string \<Rightarrow> failure + real" where
  "getitem d k = (case d k of None \<Rightarrow> Inl (KeyError k) | Some v \<Rightarrow> Inr v)"


subsection \<open>Step 1: soil classification\<close>

text \<open>The six number inputs of step 1, under the names of the script's variables.\<close>

record soil_sample =
  ll :: real
  pl :: real
  fines :: real
  d10 :: real
  d30 :: real
  d60 :: real

definition CL_label :: string where
  "CL_label = ''CL (Clay with low plasticity)''"

definition ML_label :: string where
  "ML_label = ''ML (Silt with low plasticity)''"

definition SM_label :: string where
  "SM_label = ''SM (Silty Sand or Sandy Silt)''"

definition SW_label :: string where
  "SW_label = ''SW (Well-Graded Sand)''"

definition SP_label :: string where
  "SP_label = ''SP (Poorly graded Sand)''"

definition ll_pl_message :: string where
  "ll_pl_message = ''Liquid Limit should be greater than or equal to Plastic Limit.''"

definition d_zero_message :: string where
  "d_zero_message = ''D10, D30, and D60 must all be greater than 0.''"

text \<open>
  The handler of the button \<^verbatim>\<open>Classify Soil\<close> (lines 40 to 65): the two validation
  branches, then \<^verbatim>\<open>PI\<close>, \<^verbatim>\<open>cu\<close>, \<^verbatim>\<open>cc\<close> and the classification. The result is the
  value stored in \<^verbatim>\<open>st.session_state.soil_type\<close>.
\<close>

definition classify_soil :: "soil_sample \<Rightarrow> failure + string" where
  "classify_soil s =
    (if ll s < pl s then Inl (St_error ll_pl_message)
     else if d10 s = 0 \<or> d30 s = 0 \<or> d60 s = 0 then Inl (St_error d_zero_message)
     else
       (let PI = ll s - pl s in
        and_then (truediv (d60 s) (d10 s)) (\<lambda>cu.
        and_then (truediv ((d30 s)\<^sup>2) (d10 s * d60 s)) (\<lambda>cc.
          Inr (if fines s > 50 then
                 (if PI > 7 then CL_label else ML_label)
               else if fines s > 12 then SM_label
               else
                 (if cu > 4 \<and> 1 < cc \<and> cc < 3 then SW_label else SP_label))))))"

text \<open>
  The same handler with the rounding of the float operations made explicit: \<open>rnd\<close> maps
  the exact result of an operation to the float that the operation returns. Line 46 is
  one subtraction, line 47 one division, line 48 a power, a product and a division. The
  inputs are floats and are compared as they are.
\<close>

definition classify_soil_rounded :: "(real \<Rightarrow> real) \<Rightarrow> soil_sample \<Rightarrow> failure + string" where
  "classify_soil_rounded rnd s =
    (if ll s < pl s then Inl (St_error ll_pl_message)
     else if d10 s = 0 \<or> d30 s = 0 \<or> d60 s = 0 then Inl (St_error d_zero_message)
     else
       (let PI = rnd (ll s - pl s) in
        and_then (truediv (d60 s) (d10 s)) (\<lambda>q1.
        (let cu = rnd q1 in
        and_then (truediv (rnd ((d30 s)\<^sup>2)) (rnd (d10 s * d60 s))) (\<lambda>q2.
        (let cc = rnd q2 in
          Inr (if fines s > 50 then
                 (if PI > 7 then CL_label else ML_label)
               else if fines s > 12 then SM_label
               else
                 (if cu > 4 \<and> 1 < cc \<and> cc < 3 then SW_label else SP_label))))))))"

subsection \<open>Step 2: peak ground acceleration\<close>

definition seismic_zone :: "string \<Rightarrow> string" where
  "seismic_zone soil_type =
    (if str_in ''CL'' soil_type then ''Zone III''
     else if str_in ''ML'' soil_type \<or> str_in ''SM'' soil_type then ''Zone IV''
     else ''Zone II'')"

definition zone_factors :: "string \<rightharpoonup> real" where
  "zone_factors =
     map_of [(''Zone II'', 0.10), (''Zone III'', 0.16), (''Zone IV'', 0.24), (''Zone V'', 0.36)]"

definition amplification :: "string \<Rightarrow> real" where
  "amplification soil_type =
    (if str_in ''CL'' soil_type \<or> str_in ''ML'' soil_type then 1.5
     else if str_in ''SM'' soil_type then 1.2
     else 1.0)"

record ground_motion =
  amax :: real
  amax_g :: real

text \<open>
  Lines 84, 85, 94 and 95: the zone factor \<^verbatim>\<open>Z\<close> is looked up in the dictionary, then
  \<^verbatim>\<open>amax = Z * S * 9.81\<close> and \<^verbatim>\<open>amax_g = amax / 9.81\<close>.
\<close>

definition amax_calculation :: "string \<Rightarrow> real \<Rightarrow> failure + ground_motion" where
  "amax_calculation zone S =
     and_then (getitem zone_factors zone) (\<lambda>Z.
       (let a = Z * S * 9.81 in
        and_then (truediv a 9.81) (\<lambda>ag.
          Inr \<lparr>amax = a, amax_g = ag\<rparr>)))"

text \<open>Step 2 as the script runs it on the stored soil type (lines 76 to 98).\<close>

definition step2 :: "string \<Rightarrow> failure + ground_motion" where
  "step2 soil_type = amax_calculation (seismic_zone soil_type) (amplification soil_type)"

subsection \<open>Step 3: liquefaction check\<close>

record site_profile =
  depth :: real
  gamma :: real
  gw_depth :: real
  n_value :: int

record liquefaction_result =
  sigma_v :: real
  sigma_v_eff :: real
  rd :: real
  Cn :: real
  N1_60 :: real
  CSR :: real
  CRR :: real
  FS :: real
  likely :: bool

definition invalid_stress_message :: string where
  "invalid_stress_message =
     ''Invalid effective stress. Please check groundwater depth and unit weight values.''"

definition water_table_message :: string where
  "water_table_message =
     ''Water table depth is deeper than the soil layer. No pore pressure will exist.''"

text \<open>Line 121.\<close>

definition calc_sigma_v :: "site_profile \<Rightarrow> real" where
  "calc_sigma_v p = gamma p * depth p"

text \<open>Line 122.\<close>

definition calc_sigma_v_eff :: "site_profile \<Rightarrow> real" where
  "calc_sigma_v_eff p =
     calc_sigma_v p - 9.81 * (if depth p > gw_depth p then depth p - gw_depth p else 0)"

text \<open>Line 123.\<close>

definition calc_rd :: "site_profile \<Rightarrow> real" where
  "calc_rd p = max (1.0 - 0.00765 * depth p) 0.5"

text \<open>Line 124: the conditional expression guards both the division and the power.\<close>

definition calc_Cn :: "real \<Rightarrow> failure + real" where
  "calc_Cn sv_eff =
     (if sv_eff > 0 then and_then (truediv 100 sv_eff) pow_half else Inr 0)"

text \<open>Line 125.\<close>

definition calc_N1_60 :: "int \<Rightarrow> real \<Rightarrow> real" where
  "calc_N1_60 n c = of_int n * c"

text \<open>Line 128, with \<^verbatim>\<open>st.session_state.amax_g\<close> as the first argument.\<close>

definition calc_CSR :: "real \<Rightarrow> real \<Rightarrow> real \<Rightarrow> real \<Rightarrow> failure + real" where
  "calc_CSR ag sv sv_eff r =
     and_then (truediv sv sv_eff) (\<lambda>q. Inr (0.65 * ag * q * r))"

text \<open>Line 129: four divisions, evaluated from left to right.\<close>

definition calc_CRR_7_5 :: "real \<Rightarrow> failure + real" where
  "calc_CRR_7_5 n160 =
     and_then (truediv 1 (34 - n160)) (\<lambda>t1.
     and_then (truediv n160 135) (\<lambda>t2.
     and_then (truediv 50 ((10 * n160 + 45)\<^sup>2)) (\<lambda>t3.
     and_then (truediv 1 200) (\<lambda>t4.
       Inr (t1 + t2 + t3 - t4)))))"

text \<open>
  Lines 121 to 148: the values are computed in the order of the script, \<^verbatim>\<open>Cn\<close> and
  \<^verbatim>\<open>N1_60\<close> before the test of the effective stress. A result is what the script
  reports under \<^verbatim>\<open>Results:\<close>; \<open>likely\<close> is the branch \<^verbatim>\<open>FS < 1\<close>.
\<close>

definition liquefaction_check :: "site_profile \<Rightarrow> real \<Rightarrow> failure + liquefaction_result" where
  "liquefaction_check p ag =
    (let sv = calc_sigma_v p;
         sv_eff = calc_sigma_v_eff p;
         r = calc_rd p
     in
       and_then (calc_Cn sv_eff) (\<lambda>c.
         (let n160 = calc_N1_60 (n_value p) c in
         if sv_eff > 0 then
           and_then (calc_CSR ag sv sv_eff r) (\<lambda>csr.
           and_then (calc_CRR_7_5 n160) (\<lambda>crr75.
           and_then (truediv crr75 csr) (\<lambda>fs.
             Inr \<lparr>sigma_v = sv, sigma_v_eff = sv_eff, rd = r, Cn = c, N1_60 = n160,
                  CSR = csr, CRR = crr75, FS = fs, likely = (fs < 1)\<rparr>)))
         else Inl (St_error invalid_stress_message))))"

text \<open>
  Step 3 with the advisory of lines 118 and 119: the list holds the warnings shown, the
  second component is the outcome of the calculation.
\<close>

definition step3 :: "site_profile \<Rightarrow> real \<Rightarrow> string list \<times> (failure + liquefaction_result)" where
  "step3 p ag =
     ((if gw_depth p > depth p then [water_table_message] else []),
      liquefaction_check p ag)"

text \<open>
  The three steps in sequence, each gated by the success of the one before, as the
  session flags \<^verbatim>\<open>step1_complete\<close> and \<^verbatim>\<open>step2_complete\<close> gate them.
\<close>

definition run_steps :: "soil_sample \<Rightarrow> site_profile \<Rightarrow> failure + liquefaction_result" where
  "run_steps s p =
     and_then (classify_soil s) (\<lambda>soil_type.
     and_then (step2 soil_type) (\<lambda>gm.
       liquefaction_check p (amax_g gm)))"

section \<open>Properties\<close>

subsection \<open>The operators\<close>

text \<open>The substring test is the one of Python: some block of \<open>s\<close> equals \<open>sub\<close>.\<close>

lemma startswith_iff: "startswith s p \<longleftrightarrow> (\<exists>ys. s = p @ ys)"
  by (induction s p rule: startswith.induct) auto

lemma str_in_iff: "str_in sub s \<longleftrightarrow> (\<exists>xs ys. s = xs @ sub @ ys)"
proof (induction s)
  case Nil
  show ?case by auto
next
  case (Cons c cs)
  show ?case
  proof
    assume "str_in sub (c # cs)"
    then consider "startswith (c # cs) sub" | "str_in sub cs" by auto
    then show "\<exists>xs ys. c # cs = xs @ sub @ ys"
    proof cases
      case 1
      then obtain ys where "c # cs = sub @ ys" by (auto simp: startswith_iff)
      then have "c # cs = [] @ sub @ ys" by simp
      then show ?thesis by blast
    next
      case 2
      then obtain xs ys where "cs = xs @ sub @ ys" using Cons.IH by auto
      then have "c # cs = (c # xs) @ sub @ ys" by simp
      then show ?thesis by blast
    qed
  next
    assume "\<exists>xs ys. c # cs = xs @ sub @ ys"
    then obtain xs ys where eq: "c # cs = xs @ sub @ ys" by auto
    show "str_in sub (c # cs)"
    proof (cases xs)
      case Nil
      with eq have "startswith (c # cs) sub" by (auto simp: startswith_iff)
      then show ?thesis by simp
    next
      case (Cons x xs')
      with eq have "cs = xs' @ sub @ ys" by simp
      then have "str_in sub cs" using Cons.IH by blast
      then show ?thesis by simp
    qed
  qed
qed

lemma calc_sigma_v_eff_max:
  "calc_sigma_v_eff p = gamma p * depth p - 9.81 * max (depth p - gw_depth p) 0"
  by (simp add: calc_sigma_v_eff_def calc_sigma_v_def max_def)

lemma calc_sigma_v_eff_le: "calc_sigma_v_eff p \<le> calc_sigma_v p"
  by (simp add: calc_sigma_v_eff_def)

lemma calc_rd_ge: "0.5 \<le> calc_rd p"
  by (simp add: calc_rd_def)

lemma calc_Cn_pos: "0 < sv_eff \<Longrightarrow> calc_Cn sv_eff = Inr (sqrt (100 / sv_eff))"
  by (simp add: calc_Cn_def truediv_def pow_half_def)

lemma calc_Cn_nonpos: "sv_eff \<le> 0 \<Longrightarrow> calc_Cn sv_eff = Inr 0"
  by (simp add: calc_Cn_def)

lemma calc_CSR_pos:
  "0 < sv_eff \<Longrightarrow> calc_CSR ag sv sv_eff r = Inr (0.65 * ag * (sv / sv_eff) * r)"
  by (simp add: calc_CSR_def truediv_def)

lemma calc_CRR_7_5_ok:
  "n160 \<noteq> 34 \<Longrightarrow> 10 * n160 + 45 \<noteq> 0 \<Longrightarrow>
   calc_CRR_7_5 n160 =
     Inr (1 / (34 - n160) + n160 / 135 + 50 / (10 * n160 + 45)\<^sup>2 - 1 / 200)"
  by (simp add: calc_CRR_7_5_def truediv_def)

lemma calc_CRR_7_5_singular: "calc_CRR_7_5 34 = Inl ZeroDivisionError"
  by (simp add: calc_CRR_7_5_def truediv_def)

lemma calc_CRR_7_5_cases:
  "calc_CRR_7_5 n160 = Inl ZeroDivisionError \<or> (\<exists>v. calc_CRR_7_5 n160 = Inr v)"
  by (simp add: calc_CRR_7_5_def truediv_def)

subsection \<open>Step 1: classification rules and input validation\<close>

lemma labels_distinct:
  "CL_label \<noteq> ML_label" "CL_label \<noteq> SM_label" "CL_label \<noteq> SW_label" "CL_label \<noteq> SP_label"
  "ML_label \<noteq> SM_label" "ML_label \<noteq> SW_label" "ML_label \<noteq> SP_label"
  "SM_label \<noteq> SW_label" "SM_label \<noteq> SP_label" "SW_label \<noteq> SP_label"
  by (simp_all add: CL_label_def ML_label_def SM_label_def SW_label_def SP_label_def)

text \<open>
  Past the two validation branches neither division fails, and the soil type is decided
  by the nested tests of lines 50 to 61.
\<close>

lemma classify_soil_valid:
  assumes "\<not> ll s < pl s" "d10 s \<noteq> 0" "d30 s \<noteq> 0" "d60 s \<noteq> 0"
  shows "classify_soil s = Inr
      (if fines s > 50 then (if ll s - pl s > 7 then CL_label else ML_label)
       else if fines s > 12 then SM_label
       else if d60 s / d10 s > 4 \<and> 1 < (d30 s)\<^sup>2 / (d10 s * d60 s)
                \<and> (d30 s)\<^sup>2 / (d10 s * d60 s) < 3 then SW_label
       else SP_label)"
  using assms by (simp add: classify_soil_def truediv_def)

text \<open>With exact arithmetic the handler with rounding is the handler above.\<close>

lemma classify_soil_rounded_exact: "classify_soil_rounded (\<lambda>x. x) s = classify_soil s"
  by (simp add: classify_soil_rounded_def classify_soil_def Let_def)




text \<open>
  On the last two samples exact arithmetic gives the other label: it is the rounding
  that decides.
\<close>

lemma classify_soil_exact_at_threshold:
  "classify_soil \<lparr>ll = 7915076345103647 / 2 ^ 50, pl = 1080863910568919 / 2 ^ 55, fines = 60,
         d10 = 0.01, d30 = 0.05, d60 = 0.2\<rparr> = Inr CL_label"
  "classify_soil \<lparr>ll = 40, pl = 20, fines = 5, d10 = 5764607523034235 / 2 ^ 59,
         d30 = 7926335344172073 / 2 ^ 56, d60 = 1362338887279575 / 2 ^ 50\<rparr> = Inr SW_label"
  by (simp_all add: classify_soil_valid power2_eq_square)

text \<open>
  Claim C8. The classification fails exactly when \<open>ll < pl\<close> or one of \<open>d10\<close>, \<open>d30\<close>,
  \<open>d60\<close> is zero. The failure is then the message of the first violated constraint, in
  the order of the script, and no soil type is produced. For every other input the
  result is one of the five soil types, with no failure.
\<close>

theorem classify_soil_validation:
  "(ll s < pl s \<longrightarrow> classify_soil s = Inl (St_error ll_pl_message))
   \<and> (\<not> ll s < pl s \<and> (d10 s = 0 \<or> d30 s = 0 \<or> d60 s = 0)
        \<longrightarrow> classify_soil s = Inl (St_error d_zero_message))
   \<and> (\<not> (ll s < pl s \<or> d10 s = 0 \<or> d30 s = 0 \<or> d60 s = 0)
        \<longrightarrow> classify_soil s \<in> {Inr CL_label, Inr ML_label, Inr SM_label, Inr SW_label, Inr SP_label})
   \<and> ((\<exists>e. classify_soil s = Inl e) \<longleftrightarrow> (ll s < pl s \<or> d10 s = 0 \<or> d30 s = 0 \<or> d60 s = 0))"
proof (cases "ll s < pl s \<or> d10 s = 0 \<or> d30 s = 0 \<or> d60 s = 0")
  case True
  then show ?thesis by (auto simp: classify_soil_def)
next
  case False
  then have "classify_soil s = Inr
      (if fines s > 50 then (if ll s - pl s > 7 then CL_label else ML_label)
       else if fines s > 12 then SM_label
       else if d60 s / d10 s > 4 \<and> 1 < (d30 s)\<^sup>2 / (d10 s * d60 s)
                \<and> (d30 s)\<^sup>2 / (d10 s * d60 s) < 3 then SW_label
       else SP_label)"
    by (intro classify_soil_valid) auto
  with False show ?thesis by auto
qed

text \<open>
  One sample for each branch: both constraints violated (the first one is reported), a
  zero \<open>d30\<close>, and a valid sample.
\<close>

theorem classify_soil_validation_witness:
  "classify_soil \<lparr>ll = 10, pl = 20, fines = 60, d10 = 0, d30 = 0.05, d60 = 0.2\<rparr>
     = Inl (St_error ll_pl_message)
   \<and> classify_soil \<lparr>ll = 40, pl = 20, fines = 60, d10 = 0.01, d30 = 0, d60 = 0.2\<rparr>
     = Inl (St_error d_zero_message)
   \<and> classify_soil \<lparr>ll = 40, pl = 20, fines = 60, d10 = 0.01, d30 = 0.05, d60 = 0.2\<rparr>
     \<in> {Inr CL_label, Inr ML_label, Inr SM_label, Inr SW_label, Inr SP_label}"
  using
    classify_soil_validation [of "\<lparr>ll = 10, pl = 20, fines = 60, d10 = 0, d30 = 0.05, d60 = 0.2\<rparr>"]
    classify_soil_validation [of "\<lparr>ll = 40, pl = 20, fines = 60, d10 = 0.01, d30 = 0, d60 = 0.2\<rparr>"]
    classify_soil_validation [of "\<lparr>ll = 40, pl = 20, fines = 60, d10 = 0.01, d30 = 0.05, d60 = 0.2\<rparr>"]
  by simp

subsection \<open>Step 2: zone mapping and ground motion\<close>

text \<open>
  Claim C5. The zone mapping is a total function of the soil type: CL maps to Zone III,
  ML and SM map to Zone IV, SW and SP map to Zone II. Whatever the stored soil type, the
  zone is one of these three, so Zone V is never produced.
\<close>

theorem seismic_zone_mapping:
  "seismic_zone CL_label = ''Zone III''
   \<and> seismic_zone ML_label = ''Zone IV''
   \<and> seismic_zone SM_label = ''Zone IV''
   \<and> seismic_zone SW_label = ''Zone II''
   \<and> seismic_zone SP_label = ''Zone II''
   \<and> seismic_zone soil_type \<in> {''Zone II'', ''Zone III'', ''Zone IV''}
   \<and> seismic_zone soil_type \<noteq> ''Zone V''"
  by (simp add: seismic_zone_def CL_label_def ML_label_def SM_label_def SW_label_def SP_label_def)

lemma zone_factors_values:
  "zone_factors ''Zone II'' = Some 0.10" "zone_factors ''Zone III'' = Some 0.16"
  "zone_factors ''Zone IV'' = Some 0.24" "zone_factors ''Zone V'' = Some 0.36"
  by (simp_all add: zone_factors_def)

text \<open>For a zone of the dictionary neither the lookup nor the division by 9.81 fails.\<close>

lemma amax_calculation_zone:
  "zone_factors zone = Some Z \<Longrightarrow>
   amax_calculation zone S = Inr \<lparr>amax = Z * S * 9.81, amax_g = Z * S\<rparr>"
  by (simp add: amax_calculation_def getitem_def truediv_def)

text \<open>
  Claim C6. For each of the four zones and every amplification factor \<open>S\<close> the ground
  motion is computed without failure, with \<open>amax = Z * S * 9.81\<close> and
  \<open>amax_g = amax / 9.81 = Z * S\<close>. Zone II with \<open>S = 1.0\<close> gives \<open>amax_g = 0.10\<close>, Zone IV
  with \<open>S = 1.5\<close> gives \<open>amax_g = 0.36\<close>. The equalities are those of real arithmetic.
\<close>

theorem amax_calculation_total:
  "amax_calculation ''Zone II'' S = Inr \<lparr>amax = 0.10 * S * 9.81, amax_g = 0.10 * S\<rparr>
   \<and> amax_calculation ''Zone III'' S = Inr \<lparr>amax = 0.16 * S * 9.81, amax_g = 0.16 * S\<rparr>
   \<and> amax_calculation ''Zone IV'' S = Inr \<lparr>amax = 0.24 * S * 9.81, amax_g = 0.24 * S\<rparr>
   \<and> amax_calculation ''Zone V'' S = Inr \<lparr>amax = 0.36 * S * 9.81, amax_g = 0.36 * S\<rparr>
   \<and> amax_calculation ''Zone II'' 1.0 = Inr \<lparr>amax = 0.981, amax_g = 0.10\<rparr>
   \<and> amax_calculation ''Zone IV'' 1.5 = Inr \<lparr>amax = 3.5316, amax_g = 0.36\<rparr>"
  using zone_factors_values [THEN amax_calculation_zone, of S]
    amax_calculation_zone [OF zone_factors_values(1), of "1.0"]
    amax_calculation_zone [OF zone_factors_values(3), of "1.5"]
  by simp

text \<open>Step 2 on each of the five soil types.\<close>

lemma step2_labels:
  "step2 CL_label = Inr \<lparr>amax = 0.24 * 9.81, amax_g = 0.24\<rparr>"
  "step2 ML_label = Inr \<lparr>amax = 0.36 * 9.81, amax_g = 0.36\<rparr>"
  "step2 SM_label = Inr \<lparr>amax = 0.288 * 9.81, amax_g = 0.288\<rparr>"
  "step2 SW_label = Inr \<lparr>amax = 0.10 * 9.81, amax_g = 0.10\<rparr>"
  "step2 SP_label = Inr \<lparr>amax = 0.10 * 9.81, amax_g = 0.10\<rparr>"
  using amax_calculation_zone [OF zone_factors_values(2), of "1.5"]
    amax_calculation_zone [OF zone_factors_values(3), of "1.5"]
    amax_calculation_zone [OF zone_factors_values(3), of "1.2"]
    amax_calculation_zone [OF zone_factors_values(1), of "1.0"]
  by (simp_all add: step2_def seismic_zone_def amplification_def
      CL_label_def ML_label_def SM_label_def SW_label_def SP_label_def)

text \<open>
  Whatever the stored string, step 2 succeeds and stores one of four ratios: the tests of
  lines 77 to 82 and 87 to 92 leave four combinations of zone and amplification.
\<close>

lemma step2_values:
  "\<exists>gm. step2 soil_type = Inr gm \<and> amax_g gm \<in> {0.10, 0.24, 0.288, 0.36}"
  using amax_calculation_zone [OF zone_factors_values(2), of "1.5"]
    amax_calculation_zone [OF zone_factors_values(3), of "1.5"]
    amax_calculation_zone [OF zone_factors_values(3), of "1.2"]
    amax_calculation_zone [OF zone_factors_values(1), of "1.0"]
  by (simp add: step2_def seismic_zone_def amplification_def)

lemma step2_amax_g_pos:
  assumes "step2 soil_type = Inr gm"
  shows "0 < amax_g gm"
  using step2_values [of soil_type] assms by auto

lemma classify_soil_label:
  assumes "classify_soil s = Inr soil_type"
  shows "soil_type \<in> {CL_label, ML_label, SM_label, SW_label, SP_label}"
proof -
  have ok: "\<not> ll s < pl s" "d10 s \<noteq> 0" "d30 s \<noteq> 0" "d60 s \<noteq> 0"
    using assms by (auto simp: classify_soil_def split: if_splits)
  show ?thesis
    using assms unfolding classify_soil_valid [OF ok] by (auto split: if_splits)
qed

subsection \<open>Step 3: stresses and the overburden correction\<close>

lemma calc_sigma_v_pos: "0 < calc_sigma_v_eff p \<Longrightarrow> 0 < calc_sigma_v p"
  using calc_sigma_v_eff_le [of p] by simp

lemma calc_CSR_sign:
  assumes "0 < calc_sigma_v_eff p"
  shows "calc_CSR ag (calc_sigma_v p) (calc_sigma_v_eff p) (calc_rd p)
           = Inr (0.65 * ag * (calc_sigma_v p / calc_sigma_v_eff p) * calc_rd p)"
    and "0 < (calc_sigma_v p / calc_sigma_v_eff p) * calc_rd p"
proof -
  show "calc_CSR ag (calc_sigma_v p) (calc_sigma_v_eff p) (calc_rd p)
           = Inr (0.65 * ag * (calc_sigma_v p / calc_sigma_v_eff p) * calc_rd p)"
    using assms by (rule calc_CSR_pos)
  have "0 < calc_sigma_v p / calc_sigma_v_eff p"
    using assms calc_sigma_v_pos [OF assms] by simp
  moreover have "0 < calc_rd p"
    using calc_rd_ge [of p] by simp
  ultimately show "0 < (calc_sigma_v p / calc_sigma_v_eff p) * calc_rd p"
    by (rule mult_pos_pos)
qed

text \<open>
  Claim C7. For every profile with \<open>gw_depth \<ge> 0\<close> the effective stress is at most the
  total stress, and with the water table at or below the layer (\<open>depth \<le> gw_depth\<close>) the
  two are equal: there is no pore pressure term. The advisory shown when
  \<open>gw_depth > depth\<close> is only a message; the outcome of the step is that of the
  calculation alone.
\<close>

theorem stress_invariant:
  assumes "0 \<le> gw_depth p"
  shows "calc_sigma_v_eff p \<le> calc_sigma_v p
         \<and> (depth p \<le> gw_depth p \<longrightarrow> calc_sigma_v_eff p = calc_sigma_v p)
         \<and> snd (step3 p ag) = liquefaction_check p ag"
  by (simp add: calc_sigma_v_eff_def step3_def)

text \<open>
  Scenario B of the specification (water table at 2 m, layer at 5 m) and a profile with
  the water table below the layer.
\<close>

theorem stress_invariant_witness:
  "calc_sigma_v_eff \<lparr>depth = 5, gamma = 18, gw_depth = 2, n_value = 10\<rparr>
     \<le> calc_sigma_v \<lparr>depth = 5, gamma = 18, gw_depth = 2, n_value = 10\<rparr>
   \<and> calc_sigma_v_eff \<lparr>depth = 5, gamma = 18, gw_depth = 7, n_value = 10\<rparr>
     = calc_sigma_v \<lparr>depth = 5, gamma = 18, gw_depth = 7, n_value = 10\<rparr>"
  using stress_invariant [of "\<lparr>depth = 5, gamma = 18, gw_depth = 2, n_value = 10\<rparr>"]
    stress_invariant [of "\<lparr>depth = 5, gamma = 18, gw_depth = 7, n_value = 10\<rparr>"]
  by simp

text \<open>
  Claim C10. The overburden correction never fails: for every effective stress \<open>calc_Cn\<close>
  returns a value, and for an effective stress that is zero or negative that value is 0,
  so that \<open>N1_60\<close> is \<open>n * 0 = 0\<close>. Neither a division by zero nor a root of a negative
  number is evaluated.
\<close>

theorem calc_Cn_total:
  "(\<exists>c. calc_Cn sv_eff = Inr c)
   \<and> (sv_eff \<le> 0 \<longrightarrow> calc_Cn sv_eff = Inr 0 \<and> calc_N1_60 n 0 = 0)"
  by (cases "0 < sv_eff") (simp_all add: calc_Cn_pos calc_Cn_nonpos calc_N1_60_def)

text \<open>A negative effective stress (unit weight 9, water table at the surface) and zero.\<close>

theorem calc_Cn_total_witness:
  "calc_Cn (- 4.05) = Inr 0 \<and> calc_N1_60 10 0 = 0 \<and> calc_Cn 0 = Inr 0"
  using calc_Cn_total [of "- 4.05" 10] calc_Cn_total [of 0 10]
  by simp

subsection \<open>Step 3: the liquefaction check\<close>

text \<open>The check on a positive effective stress, up to the two places that can fail.\<close>

lemma liquefaction_check_pos:
  assumes "0 < calc_sigma_v_eff p"
  shows "liquefaction_check p ag =
     and_then (calc_CRR_7_5 (calc_N1_60 (n_value p) (sqrt (100 / calc_sigma_v_eff p)))) (\<lambda>crr75.
     and_then (truediv crr75 (0.65 * ag * (calc_sigma_v p / calc_sigma_v_eff p) * calc_rd p)) (\<lambda>fs.
       Inr \<lparr>sigma_v = calc_sigma_v p, sigma_v_eff = calc_sigma_v_eff p, rd = calc_rd p,
            Cn = sqrt (100 / calc_sigma_v_eff p),
            N1_60 = calc_N1_60 (n_value p) (sqrt (100 / calc_sigma_v_eff p)),
            CSR = 0.65 * ag * (calc_sigma_v p / calc_sigma_v_eff p) * calc_rd p,
            CRR = crr75, FS = fs, likely = (fs < 1)\<rparr>))"
  using assms
  by (simp add: liquefaction_check_def Let_def calc_Cn_pos calc_CSR_pos)

lemma liquefaction_check_nonpos:
  assumes "calc_sigma_v_eff p \<le> 0"
  shows "liquefaction_check p ag = Inl (St_error invalid_stress_message)"
  using assms by (simp add: liquefaction_check_def Let_def calc_Cn_nonpos)

text \<open>
  Claim C3. For every profile and every \<open>amax_g\<close>, if the effective stress
  \<open>gamma * depth - 9.81 * max (depth - gw_depth) 0\<close> is zero or negative, the check ends
  with the invalid-stress message and produces no result: no factor of safety is
  computed or reported.
\<close>

theorem invalid_stress:
  assumes "gamma p * depth p - 9.81 * max (depth p - gw_depth p) 0 \<le> 0"
  shows "liquefaction_check p ag = Inl (St_error invalid_stress_message)
         \<and> (\<forall>r. liquefaction_check p ag \<noteq> Inr r)"
  using assms by (simp add: liquefaction_check_nonpos calc_sigma_v_eff_max)

text \<open>A layer at 5 m with unit weight 9 and the water table at the surface: \<open>45 - 49.05\<close>.\<close>

theorem invalid_stress_witness:
  "gamma \<lparr>depth = 5, gamma = 9, gw_depth = 0, n_value = 10\<rparr>
      * depth \<lparr>depth = 5, gamma = 9, gw_depth = 0, n_value = 10\<rparr>
      - 9.81 * max (depth \<lparr>depth = 5, gamma = 9, gw_depth = 0, n_value = 10\<rparr>
                     - gw_depth \<lparr>depth = 5, gamma = 9, gw_depth = 0, n_value = 10\<rparr>) 0 \<le> 0
   \<and> liquefaction_check \<lparr>depth = 5, gamma = 9, gw_depth = 0, n_value = 10\<rparr> 0.24
       = Inl (St_error invalid_stress_message)"
  using invalid_stress [of "\<lparr>depth = 5, gamma = 9, gw_depth = 0, n_value = 10\<rparr>" "0.24"]
  by simp

text \<open>
  The result of the check for a nonzero \<open>amax_g\<close>, a positive effective stress and a
  corrected blow count other than 34, in the formulas of the specification.
\<close>

lemma liquefaction_check_nonzero_amax:
  assumes "0 < depth p" and "0 < gamma p" and "0 \<le> gw_depth p" and "1 \<le> n_value p"
    and "ag \<noteq> 0"
    and "0 < gamma p * depth p - 9.81 * max (depth p - gw_depth p) 0"
    and "of_int (n_value p)
           * sqrt (100 / (gamma p * depth p - 9.81 * max (depth p - gw_depth p) 0)) \<noteq> (34::real)"
  shows "liquefaction_check p ag = Inr
     (let sv = gamma p * depth p;
          sv_eff = sv - 9.81 * max (depth p - gw_depth p) 0;
          r = max (1.0 - 0.00765 * depth p) 0.5;
          c = sqrt (100 / sv_eff);
          n = of_int (n_value p) * c;
          csr = 0.65 * ag * (sv / sv_eff) * r;
          crr = 1 / (34 - n) + n / 135 + 50 / (10 * n + 45)\<^sup>2 - 1 / 200;
          fs = crr / csr
      in \<lparr>sigma_v = sv, sigma_v_eff = sv_eff, rd = r, Cn = c, N1_60 = n,
           CSR = csr, CRR = crr, FS = fs, likely = (fs < 1.0)\<rparr>)"
proof -
  define sv_eff where "sv_eff = calc_sigma_v_eff p"
  define n where "n = calc_N1_60 (n_value p) (sqrt (100 / sv_eff))"
  define csr where "csr = 0.65 * ag * (calc_sigma_v p / sv_eff) * calc_rd p"
  have eff: "sv_eff = gamma p * depth p - 9.81 * max (depth p - gw_depth p) 0"
    unfolding sv_eff_def by (rule calc_sigma_v_eff_max)
  have pos: "0 < calc_sigma_v_eff p"
    using assms(6) eff sv_eff_def by simp
  have n34: "n \<noteq> 34"
    using assms(7) by (simp add: n_def calc_N1_60_def eff)
  have "0 < sqrt (100 / sv_eff)"
    using pos by (simp add: sv_eff_def)
  moreover have "0 < (of_int (n_value p) :: real)"
    using assms(4) by simp
  ultimately have "0 < n"
    unfolding n_def calc_N1_60_def by (rule mult_pos_pos [rotated])
  then have n45: "10 * n + 45 \<noteq> 0"
    by simp
  have crr: "calc_CRR_7_5 n = Inr (1 / (34 - n) + n / 135 + 50 / (10 * n + 45)\<^sup>2 - 1 / 200)"
    using n34 n45 by (rule calc_CRR_7_5_ok)
  have "calc_sigma_v p \<noteq> 0" "calc_rd p \<noteq> 0" "calc_sigma_v_eff p \<noteq> 0"
    using pos calc_sigma_v_pos [OF pos] calc_rd_ge [of p] by simp_all
  then have csr0: "csr \<noteq> 0"
    using assms(5) by (simp add: csr_def sv_eff_def)
  have td: "truediv x csr = Inr (x / csr)" for x
    using csr0 by (simp add: truediv_def)
  have "liquefaction_check p ag =
     and_then (calc_CRR_7_5 n) (\<lambda>crr75.
     and_then (truediv crr75 csr) (\<lambda>fs.
       Inr \<lparr>sigma_v = calc_sigma_v p, sigma_v_eff = sv_eff, rd = calc_rd p,
            Cn = sqrt (100 / sv_eff), N1_60 = n, CSR = csr,
            CRR = crr75, FS = fs, likely = (fs < 1)\<rparr>))"
    unfolding n_def csr_def sv_eff_def using pos by (rule liquefaction_check_pos)
  then have "liquefaction_check p ag =
      Inr \<lparr>sigma_v = calc_sigma_v p, sigma_v_eff = sv_eff, rd = calc_rd p,
            Cn = sqrt (100 / sv_eff), N1_60 = n, CSR = csr,
            CRR = 1 / (34 - n) + n / 135 + 50 / (10 * n + 45)\<^sup>2 - 1 / 200,
            FS = (1 / (34 - n) + n / 135 + 50 / (10 * n + 45)\<^sup>2 - 1 / 200) / csr,
            likely = ((1 / (34 - n) + n / 135 + 50 / (10 * n + 45)\<^sup>2 - 1 / 200) / csr < 1)\<rparr>"
    unfolding crr by (simp only: and_then.simps td)
  then show ?thesis
    unfolding Let_def eff [symmetric] n_def csr_def calc_N1_60_def calc_sigma_v_def calc_rd_def
    by simp
qed

text \<open>
  Claim C2. The check receives \<open>amax_g\<close> from step 2 only (line 97 is the one assignment
  of the session value read at line 128). For every \<open>amax_g\<close> that step 2 stores,
  whatever the soil type, and every profile with \<open>depth > 0\<close>, \<open>gamma > 0\<close>,
  \<open>gw_depth \<ge> 0\<close> and \<open>n_value \<ge> 1\<close>, whenever the effective stress is positive and
  \<open>N1_60\<close> is not 34, the check returns the result made of, in this order: the total
  stress \<open>gamma * depth\<close>; the effective stress, the total stress less
  \<open>9.81 * max (depth - gw_depth) 0\<close>; \<open>rd = max (1.0 - 0.00765 * depth) 0.5\<close>; \<open>Cn\<close>, the
  square root of 100 over the effective stress; \<open>N1_60 = n_value * Cn\<close>; \<open>CSR\<close>, which
  is \<open>0.65 * amax_g * rd\<close> times the ratio of total to effective stress;
  \<open>CRR = 1 / (34 - N1_60) + N1_60 / 135 + 50 / (10 * N1_60 + 45)\<^sup>2 - 1 / 200\<close>;
  \<open>FS = CRR / CSR\<close>; and \<open>likely\<close>, which holds exactly when \<open>FS < 1.0\<close>.
\<close>

theorem liquefaction_check_formulas:
  assumes "step2 soil_type = Inr gm"
    and "0 < depth p" and "0 < gamma p" and "0 \<le> gw_depth p" and "1 \<le> n_value p"
    and "0 < gamma p * depth p - 9.81 * max (depth p - gw_depth p) 0"
    and "of_int (n_value p)
           * sqrt (100 / (gamma p * depth p - 9.81 * max (depth p - gw_depth p) 0)) \<noteq> (34::real)"
  shows "liquefaction_check p (amax_g gm) = Inr
     (let sv = gamma p * depth p;
          sv_eff = sv - 9.81 * max (depth p - gw_depth p) 0;
          r = max (1.0 - 0.00765 * depth p) 0.5;
          c = sqrt (100 / sv_eff);
          n = of_int (n_value p) * c;
          csr = 0.65 * amax_g gm * (sv / sv_eff) * r;
          crr = 1 / (34 - n) + n / 135 + 50 / (10 * n + 45)\<^sup>2 - 1 / 200;
          fs = crr / csr
      in \<lparr>sigma_v = sv, sigma_v_eff = sv_eff, rd = r, Cn = c, N1_60 = n,
           CSR = csr, CRR = crr, FS = fs, likely = (fs < 1.0)\<rparr>)"
proof -
  have "amax_g gm \<noteq> 0"
    using step2_amax_g_pos [OF assms(1)] by simp
  with assms(2-7) show ?thesis
    by (intro liquefaction_check_nonzero_amax)
qed

text \<open>
  Soil type CL, for which step 2 stores 0.24, and a layer at 10 m with unit weight
  14.905 and the water table at 5 m: the total stress is 149.05, the pore pressure
  49.05, the effective stress 100, \<open>Cn\<close> is 1, \<open>N1_60\<close> is 10, and liquefaction is likely.
\<close>

theorem liquefaction_check_formulas_witness:
  "step2 CL_label = Inr \<lparr>amax = 0.24 * 9.81, amax_g = 0.24\<rparr>
   \<and> liquefaction_check \<lparr>depth = 10, gamma = 14.905, gw_depth = 5, n_value = 10\<rparr> 0.24
     = Inr \<lparr>sigma_v = 149.05, sigma_v_eff = 100, rd = 0.9235, Cn = 1, N1_60 = 10,
            CSR = 0.65 * 0.24 * 1.4905 * 0.9235,
            CRR = 1 / 24 + 10 / 135 + 50 / 145\<^sup>2 - 1 / 200,
            FS = (1 / 24 + 10 / 135 + 50 / 145\<^sup>2 - 1 / 200) / (0.65 * 0.24 * 1.4905 * 0.9235),
            likely = True\<rparr>"
  using liquefaction_check_formulas [OF step2_labels(1),
      of "\<lparr>depth = 10, gamma = 14.905, gw_depth = 5, n_value = 10\<rparr>"]
    step2_labels(1)
  by (simp add: Let_def)

subsection \<open>Step 3: the unguarded divisions\<close>

lemma liquefaction_check_zero_amax:
  assumes "0 < calc_sigma_v_eff p"
  shows "liquefaction_check p 0 = Inl ZeroDivisionError"
proof -
  let ?n = "calc_N1_60 (n_value p) (sqrt (100 / calc_sigma_v_eff p))"
  have td: "truediv x 0 = Inl ZeroDivisionError" for x
    by (simp add: truediv_def)
  have "liquefaction_check p 0 =
      and_then (calc_CRR_7_5 ?n) (\<lambda>crr75. Inl ZeroDivisionError)"
    unfolding liquefaction_check_pos [OF assms] by (simp add: td)
  then show ?thesis
    using calc_CRR_7_5_cases [of ?n] by auto
qed

lemma liquefaction_check_singular:
  assumes "0 < calc_sigma_v_eff p"
    and "calc_N1_60 (n_value p) (sqrt (100 / calc_sigma_v_eff p)) = 34"
  shows "liquefaction_check p ag = Inl ZeroDivisionError"
  unfolding liquefaction_check_pos [OF assms(1)] assms(2) calc_CRR_7_5_singular
  by simp

text \<open>
  Whenever the corrected blow count is exactly 34, or the effective stress is positive
  and \<open>CSR\<close> is zero (which is the case exactly for \<open>amax_g = 0\<close>), the check ends with
  the exception of the division itself. The script has no test for either condition.
\<close>

lemma liquefaction_check_zero_division:
  assumes "(calc_Cn (calc_sigma_v_eff p) = Inr c \<and> calc_N1_60 (n_value p) c = 34)
           \<or> (0 < calc_sigma_v_eff p
               \<and> (ag = 0 \<or> calc_CSR ag (calc_sigma_v p) (calc_sigma_v_eff p) (calc_rd p) = Inr 0))"
  shows "liquefaction_check p ag = Inl ZeroDivisionError"
  using assms
proof (elim disjE conjE)
  assume c: "calc_Cn (calc_sigma_v_eff p) = Inr c" and n: "calc_N1_60 (n_value p) c = 34"
  have pos: "0 < calc_sigma_v_eff p"
  proof (rule ccontr)
    assume "\<not> 0 < calc_sigma_v_eff p"
    then have "calc_Cn (calc_sigma_v_eff p) = Inr 0"
      by (simp add: calc_Cn_nonpos)
    with c have "c = 0" by simp
    with n show False by (simp add: calc_N1_60_def)
  qed
  then have "c = sqrt (100 / calc_sigma_v_eff p)"
    using c by (simp add: calc_Cn_pos)
  with n pos show ?thesis
    by (simp add: liquefaction_check_singular)
next
  assume "0 < calc_sigma_v_eff p" and "ag = 0"
  then show ?thesis
    by (simp add: liquefaction_check_zero_amax)
next
  assume pos: "0 < calc_sigma_v_eff p"
    and "calc_CSR ag (calc_sigma_v p) (calc_sigma_v_eff p) (calc_rd p) = Inr 0"
  then have "0.65 * ag * (calc_sigma_v p / calc_sigma_v_eff p) * calc_rd p = 0"
    by (simp only: calc_CSR_pos sum.inject)
  moreover have "calc_sigma_v p \<noteq> 0" "calc_rd p \<noteq> 0" "calc_sigma_v_eff p \<noteq> 0"
    using pos calc_sigma_v_pos [OF pos] calc_rd_ge [of p] by simp_all
  ultimately have "ag = 0" by simp
  with pos show ?thesis
    by (simp add: liquefaction_check_zero_amax)
qed

text \<open>
  Claim C4 asks that a corrected blow count of exactly 34 be detected and reported as
  an error of its own. The script guards the division by the effective stress (lines
  124 and 127, with the message of line 148) but not the divisions of lines 129 and 131.
  Scenario A of the specification (soil type CL, \<open>amax_g = 0.24\<close>) followed by a layer
  at 5 m with unit weight 20, the water table at 5 m and a blow count of 34: the
  effective stress is 100, \<open>Cn\<close> is 1, \<open>N1_60\<close> is 34, and \<open>1 / (34 - N1_60)\<close> raises
  \<open>ZeroDivisionError\<close>. The run ends with that exception, not with a message of the
  script and not with a result.
\<close>

theorem blow_count_34_raises:
  "classify_soil \<lparr>ll = 40, pl = 20, fines = 60, d10 = 0.01, d30 = 0.05, d60 = 0.2\<rparr> = Inr CL_label
   \<and> step2 CL_label = Inr \<lparr>amax = 0.24 * 9.81, amax_g = 0.24\<rparr>
   \<and> calc_sigma_v_eff \<lparr>depth = 5, gamma = 20, gw_depth = 5, n_value = 34\<rparr> = 100
   \<and> calc_Cn 100 = Inr 1
   \<and> calc_N1_60 34 1 = 34
   \<and> liquefaction_check \<lparr>depth = 5, gamma = 20, gw_depth = 5, n_value = 34\<rparr> 0.24
        = Inl ZeroDivisionError
   \<and> run_steps \<lparr>ll = 40, pl = 20, fines = 60, d10 = 0.01, d30 = 0.05, d60 = 0.2\<rparr>
        \<lparr>depth = 5, gamma = 20, gw_depth = 5, n_value = 34\<rparr> = Inl ZeroDivisionError"
proof -
  have s: "classify_soil \<lparr>ll = 40, pl = 20, fines = 60, d10 = 0.01, d30 = 0.05, d60 = 0.2\<rparr>
             = Inr CL_label"
    by (simp add: classify_soil_valid)
  have e: "calc_sigma_v_eff \<lparr>depth = 5, gamma = 20, gw_depth = 5, n_value = 34\<rparr> = 100"
    by (simp add: calc_sigma_v_eff_def calc_sigma_v_def)
  have c: "calc_Cn 100 = Inr 1"
    by (simp add: calc_Cn_pos)
  have n: "calc_N1_60 34 1 = 34"
    by (simp add: calc_N1_60_def)
  have l: "liquefaction_check \<lparr>depth = 5, gamma = 20, gw_depth = 5, n_value = 34\<rparr> 0.24
        = Inl ZeroDivisionError"
    by (rule liquefaction_check_singular) (simp_all add: e n)
  have r: "run_steps \<lparr>ll = 40, pl = 20, fines = 60, d10 = 0.01, d30 = 0.05, d60 = 0.2\<rparr>
        \<lparr>depth = 5, gamma = 20, gw_depth = 5, n_value = 34\<rparr> = Inl ZeroDivisionError"
  proof -
    have "run_steps \<lparr>ll = 40, pl = 20, fines = 60, d10 = 0.01, d30 = 0.05, d60 = 0.2\<rparr>
        \<lparr>depth = 5, gamma = 20, gw_depth = 5, n_value = 34\<rparr>
        = liquefaction_check \<lparr>depth = 5, gamma = 20, gw_depth = 5, n_value = 34\<rparr> 0.24"
      unfolding run_steps_def s by (simp add: step2_labels(1))
    then show ?thesis by (simp only: l)
  qed
  from s step2_labels(1) e c n l r show ?thesis
    by (intro conjI)
qed

subsection \<open>The three steps together\<close>

text \<open>The check for a positive effective stress and a positive \<open>amax_g\<close>.\<close>

lemma liquefaction_check_positive_amax:
  assumes "0 < calc_sigma_v_eff p" and "0 < ag"
  shows "0 < 0.65 * ag * (calc_sigma_v p / calc_sigma_v_eff p) * calc_rd p"
    and "liquefaction_check p ag =
     and_then (calc_CRR_7_5 (calc_N1_60 (n_value p) (sqrt (100 / calc_sigma_v_eff p)))) (\<lambda>crr75.
       Inr \<lparr>sigma_v = calc_sigma_v p, sigma_v_eff = calc_sigma_v_eff p, rd = calc_rd p,
            Cn = sqrt (100 / calc_sigma_v_eff p),
            N1_60 = calc_N1_60 (n_value p) (sqrt (100 / calc_sigma_v_eff p)),
            CSR = 0.65 * ag * (calc_sigma_v p / calc_sigma_v_eff p) * calc_rd p,
            CRR = crr75,
            FS = crr75 / (0.65 * ag * (calc_sigma_v p / calc_sigma_v_eff p) * calc_rd p),
            likely = (crr75 / (0.65 * ag * (calc_sigma_v p / calc_sigma_v_eff p) * calc_rd p) < 1)\<rparr>)"
proof -
  define csr where "csr = 0.65 * ag * (calc_sigma_v p / calc_sigma_v_eff p) * calc_rd p"
  have "0 < (calc_sigma_v p / calc_sigma_v_eff p) * calc_rd p"
    using assms(1) by (rule calc_CSR_sign(2))
  moreover have "0 < 0.65 * ag"
    using assms(2) by simp
  ultimately have "0 < (0.65 * ag) * ((calc_sigma_v p / calc_sigma_v_eff p) * calc_rd p)"
    by (rule mult_pos_pos [rotated])
  then have c0: "0 < csr"
    unfolding csr_def by (simp only: mult.assoc)
  then show "0 < 0.65 * ag * (calc_sigma_v p / calc_sigma_v_eff p) * calc_rd p"
    unfolding csr_def .
  have td: "truediv x csr = Inr (x / csr)" for x
    using c0 by (simp add: truediv_def)
  show "liquefaction_check p ag =
     and_then (calc_CRR_7_5 (calc_N1_60 (n_value p) (sqrt (100 / calc_sigma_v_eff p)))) (\<lambda>crr75.
       Inr \<lparr>sigma_v = calc_sigma_v p, sigma_v_eff = calc_sigma_v_eff p, rd = calc_rd p,
            Cn = sqrt (100 / calc_sigma_v_eff p),
            N1_60 = calc_N1_60 (n_value p) (sqrt (100 / calc_sigma_v_eff p)),
            CSR = 0.65 * ag * (calc_sigma_v p / calc_sigma_v_eff p) * calc_rd p,
            CRR = crr75,
            FS = crr75 / (0.65 * ag * (calc_sigma_v p / calc_sigma_v_eff p) * calc_rd p),
            likely = (crr75 / (0.65 * ag * (calc_sigma_v p / calc_sigma_v_eff p) * calc_rd p) < 1)\<rparr>)"
    unfolding liquefaction_check_pos [OF assms(1)] csr_def [symmetric]
    by (simp only: td and_then.simps)
qed

lemma run_steps_classified:
  assumes "classify_soil s = Inr soil_type" and "step2 soil_type = Inr gm"
  shows "run_steps s p = liquefaction_check p (amax_g gm)"
  by (simp add: run_steps_def assms)

text \<open>
  Claim C9. For every soil type that the classification produces, step 2 succeeds and
  its \<open>amax_g\<close> is one of 0.10, 0.24, 0.288 and 0.36, hence positive, and the run of the
  three steps is the check on that \<open>amax_g\<close>. In that run the division \<open>FS = CRR / CSR\<close>
  never divides by zero: every result of the run has a positive \<open>CSR\<close> and
  \<open>FS = CRR / CSR\<close>; a \<open>ZeroDivisionError\<close> of the run can only be the one of the \<open>CRR\<close>
  formula; and whenever the effective stress is positive and the \<open>CRR\<close> formula has a
  value, the run ends with a result whose \<open>FS\<close> is that value over \<open>CSR\<close>.
\<close>

theorem pipeline_amax_positive:
  assumes "classify_soil s = Inr soil_type"
  shows "\<exists>gm. step2 soil_type = Inr gm
           \<and> amax_g gm \<in> {0.10, 0.24, 0.288, 0.36}
           \<and> 0 < amax_g gm
           \<and> run_steps s p = liquefaction_check p (amax_g gm)
           \<and> (\<forall>r. run_steps s p = Inr r \<longrightarrow>
                 CSR r = 0.65 * amax_g gm * (calc_sigma_v p / calc_sigma_v_eff p) * calc_rd p
                 \<and> 0 < CSR r \<and> FS r = CRR r / CSR r)
           \<and> (run_steps s p = Inl ZeroDivisionError \<longrightarrow>
                 calc_CRR_7_5 (calc_N1_60 (n_value p) (sqrt (100 / calc_sigma_v_eff p)))
                   = Inl ZeroDivisionError)
           \<and> (\<forall>crr. 0 < calc_sigma_v_eff p
                 \<and> calc_CRR_7_5 (calc_N1_60 (n_value p) (sqrt (100 / calc_sigma_v_eff p))) = Inr crr
                 \<longrightarrow> (\<exists>r. run_steps s p = Inr r \<and> CRR r = crr \<and> 0 < CSR r
                          \<and> FS r = crr / CSR r))"
proof -
  obtain gm where gm: "step2 soil_type = Inr gm"
    and v: "amax_g gm \<in> {0.10, 0.24, 0.288, 0.36}"
    using step2_values [of soil_type] by blast
  from v have g0: "0 < amax_g gm" by auto
  have run: "run_steps s p = liquefaction_check p (amax_g gm)"
    using assms gm by (rule run_steps_classified)
  define n where "n = calc_N1_60 (n_value p) (sqrt (100 / calc_sigma_v_eff p))"
  define csr where "csr = 0.65 * amax_g gm * (calc_sigma_v p / calc_sigma_v_eff p) * calc_rd p"
  show ?thesis
  proof (cases "0 < calc_sigma_v_eff p")
    case False
    then have "run_steps s p = Inl (St_error invalid_stress_message)"
      unfolding run by (simp add: liquefaction_check_nonpos)
    with gm v g0 run False show ?thesis by auto
  next
    case True
    have c0: "0 < csr"
      unfolding csr_def using True g0 by (rule liquefaction_check_positive_amax(1))
    have eq: "run_steps s p = and_then (calc_CRR_7_5 n) (\<lambda>crr75.
       Inr \<lparr>sigma_v = calc_sigma_v p, sigma_v_eff = calc_sigma_v_eff p, rd = calc_rd p,
            Cn = sqrt (100 / calc_sigma_v_eff p), N1_60 = n, CSR = csr,
            CRR = crr75, FS = crr75 / csr, likely = (crr75 / csr < 1)\<rparr>)"
      unfolding run n_def csr_def using True g0 by (rule liquefaction_check_positive_amax(2))
    have a: "\<forall>r. run_steps s p = Inr r \<longrightarrow> CSR r = csr \<and> 0 < CSR r \<and> FS r = CRR r / CSR r"
      using calc_CRR_7_5_cases [of n] c0 unfolding eq by auto
    have b: "run_steps s p = Inl ZeroDivisionError \<longrightarrow> calc_CRR_7_5 n = Inl ZeroDivisionError"
      using calc_CRR_7_5_cases [of n] unfolding eq by auto
    have c: "\<forall>crr. 0 < calc_sigma_v_eff p \<and> calc_CRR_7_5 n = Inr crr
                 \<longrightarrow> (\<exists>r. run_steps s p = Inr r \<and> CRR r = crr \<and> 0 < CSR r \<and> FS r = crr / CSR r)"
      using c0 unfolding eq by auto
    from gm v g0 run a b c show ?thesis
      unfolding n_def csr_def by blast
  qed
qed

text \<open>
  Scenario A of the specification, classified CL, then a layer at 10 m with unit weight
  14.905 and the water table at 5 m (effective stress 100, \<open>N1_60 = 10\<close>): the run ends
  with a result, with \<open>CSR\<close> positive.
\<close>

theorem pipeline_amax_positive_witness:
  "\<exists>r. run_steps \<lparr>ll = 40, pl = 20, fines = 60, d10 = 0.01, d30 = 0.05, d60 = 0.2\<rparr>
          \<lparr>depth = 10, gamma = 14.905, gw_depth = 5, n_value = 10\<rparr> = Inr r
     \<and> CRR r = 1 / 24 + 10 / 135 + 50 / 145\<^sup>2 - 1 / 200
     \<and> CSR r = 0.65 * 0.24 * 1.4905 * 0.9235
     \<and> 0 < CSR r
     \<and> FS r = CRR r / CSR r"
proof -
  let ?s = "\<lparr>ll = 40, pl = 20, fines = 60, d10 = 0.01, d30 = 0.05, d60 = 0.2\<rparr>"
  let ?p = "\<lparr>depth = 10, gamma = 14.905, gw_depth = 5, n_value = 10\<rparr>"
  have s: "classify_soil ?s = Inr CL_label"
    by (simp add: classify_soil_valid)
  have e: "calc_sigma_v_eff ?p = 100" "calc_sigma_v ?p = 149.05" "calc_rd ?p = 0.9235"
    by (simp_all add: calc_sigma_v_eff_def calc_sigma_v_def calc_rd_def)
  have n: "calc_N1_60 (n_value ?p) (sqrt (100 / calc_sigma_v_eff ?p)) = 10"
    unfolding e by (simp add: calc_N1_60_def)
  have crr: "calc_CRR_7_5 (calc_N1_60 (n_value ?p) (sqrt (100 / calc_sigma_v_eff ?p)))
               = Inr (1 / 24 + 10 / 135 + 50 / 145\<^sup>2 - 1 / 200)"
    unfolding n by (simp add: calc_CRR_7_5_def truediv_def)
  have pos: "0 < calc_sigma_v_eff ?p"
    unfolding e by simp
  from pipeline_amax_positive [OF s, of ?p]
  obtain gm where gm: "step2 CL_label = Inr gm"
    and csr: "\<forall>r. run_steps ?s ?p = Inr r \<longrightarrow>
                 CSR r = 0.65 * amax_g gm * (calc_sigma_v ?p / calc_sigma_v_eff ?p) * calc_rd ?p
                 \<and> 0 < CSR r \<and> FS r = CRR r / CSR r"
    and res: "\<forall>crr. 0 < calc_sigma_v_eff ?p
                 \<and> calc_CRR_7_5 (calc_N1_60 (n_value ?p) (sqrt (100 / calc_sigma_v_eff ?p))) = Inr crr
                 \<longrightarrow> (\<exists>r. run_steps ?s ?p = Inr r \<and> CRR r = crr \<and> 0 < CSR r
                          \<and> FS r = crr / CSR r)"
    by blast
  from gm have "gm = \<lparr>amax = 0.24 * 9.81, amax_g = 0.24\<rparr>"
    unfolding step2_labels(1) by simp
  then have g: "amax_g gm = 0.24"
    by simp
  from res pos crr obtain r where r: "run_steps ?s ?p = Inr r"
    and c: "CRR r = 1 / 24 + 10 / 135 + 50 / 145\<^sup>2 - 1 / 200"
    by blast
  from csr r have "CSR r = 0.65 * amax_g gm * (calc_sigma_v ?p / calc_sigma_v_eff ?p) * calc_rd ?p"
    and "0 < CSR r" and "FS r = CRR r / CSR r"
    by blast+
  then have "CSR r = 0.65 * 0.24 * 1.4905 * 0.9235 \<and> 0 < CSR r \<and> FS r = CRR r / CSR r"
    unfolding g e by simp
  with r c show ?thesis by blast
qed

end
